theory Spec2Isabelle
  imports Complex_Main "HOL-Library.Word"
begin

section \<open>JavaScript values of the request bodies\<close>

text \<open>
  The four Lambda handlers (merge, split, compress, rotate) read their parameters from
  \<^verbatim>\<open>JSON.parse(event.body)\<close>, so a field can hold any JSON value. Numbers are
  modelled with exact rationals next to the three non-finite values of the language;
  \<^verbatim>\<open>-0\<close> is identified with \<^verbatim>\<open>0\<close>. The doubles of the language agree with the
  rationals on the integers of magnitude below \<open>2^53\<close>, where the angles, sizes, counts and
  timestamps of the handlers live. A string is the list of its code units.
\<close>

datatype jsnum = NaN | PosInf | NegInf | Fin rat

datatype jsvalue =
    JUndefined
  | JNull
  | JBool bool
  | JNum jsnum
  | JStr string
  | JArr "jsvalue list"
  | JObj "(string \<times> jsvalue) list"

datatype fault = SyntaxError | TypeError | RangeError | NotFound | IOError | DecodeError

fun js_neg :: "jsnum \<Rightarrow> jsnum" where
  "js_neg NaN = NaN"
| "js_neg PosInf = NegInf"
| "js_neg NegInf = PosInf"
| "js_neg (Fin a) = Fin (- a)"

fun js_add :: "jsnum \<Rightarrow> jsnum \<Rightarrow> jsnum" where
  "js_add (Fin a) (Fin b) = Fin (a + b)"
| "js_add NaN y = NaN"
| "js_add x NaN = NaN"
| "js_add PosInf NegInf = NaN"
| "js_add NegInf PosInf = NaN"
| "js_add PosInf y = PosInf"
| "js_add x PosInf = PosInf"
| "js_add NegInf y = NegInf"
| "js_add x NegInf = NegInf"

definition js_sub :: "jsnum \<Rightarrow> jsnum \<Rightarrow> jsnum" where
  "js_sub x y = js_add x (js_neg y)"

fun js_mul :: "jsnum \<Rightarrow> jsnum \<Rightarrow> jsnum" where
  "js_mul (Fin a) (Fin b) = Fin (a * b)"
| "js_mul NaN y = NaN"
| "js_mul x NaN = NaN"
| "js_mul (Fin a) y = (if a = 0 then NaN else if 0 < a then y else js_neg y)"
| "js_mul x (Fin b) = (if b = 0 then NaN else if 0 < b then x else js_neg x)"
| "js_mul PosInf y = y"
| "js_mul NegInf y = js_neg y"

fun js_div :: "jsnum \<Rightarrow> jsnum \<Rightarrow> jsnum" where
  "js_div (Fin a) (Fin b) =
     (if b = 0 then (if a = 0 then NaN else if 0 < a then PosInf else NegInf)
      else Fin (a / b))"
| "js_div NaN y = NaN"
| "js_div x NaN = NaN"
| "js_div (Fin a) y = Fin 0"
| "js_div x (Fin b) = (if 0 \<le> b then x else js_neg x)"
| "js_div x y = NaN"

fun js_lt :: "jsnum \<Rightarrow> jsnum \<Rightarrow> bool" where
  "js_lt (Fin a) (Fin b) = (a < b)"
| "js_lt NaN y = False"
| "js_lt x NaN = False"
| "js_lt PosInf y = False"
| "js_lt x NegInf = False"
| "js_lt x y = True"

definition js_gt :: "jsnum \<Rightarrow> jsnum \<Rightarrow> bool" where
  "js_gt x y = js_lt y x"

text \<open>\<^verbatim>\<open>Math.round\<close>: the nearest integer, a tie going up.\<close>

fun Math_round :: "jsnum \<Rightarrow> jsnum" where
  "Math_round (Fin a) = Fin (of_int \<lfloor>a + 1 / 2\<rfloor>)"
| "Math_round x = x"

text \<open>Truthiness, as the test \<^verbatim>\<open>!v\<close> of the handlers sees it.\<close>

fun truthy :: "jsvalue \<Rightarrow> bool" where
  "truthy JUndefined = False"
| "truthy JNull = False"
| "truthy (JBool b) = b"
| "truthy (JNum NaN) = False"
| "truthy (JNum (Fin a)) = (a \<noteq> 0)"
| "truthy (JNum x) = True"
| "truthy (JStr s) = (s \<noteq> [])"
| "truthy (JArr xs) = True"
| "truthy (JObj kvs) = True"

text \<open>
  \<^verbatim>\<open>Number(v)\<close>. The primitive cases are those of the language. A string goes through the
  language's \<^verbatim>\<open>StringToNumber\<close> and an array or object through \<^verbatim>\<open>ToPrimitive\<close> first;
  both are taken as the parameter \<open>coerce\<close>, which is assumed to return (an object whose
  own \<^verbatim>\<open>toString\<close> field shadows the inherited method makes the language raise instead).
\<close>

fun ToNumber :: "(jsvalue \<Rightarrow> jsnum) \<Rightarrow> jsvalue \<Rightarrow> jsnum" where
  "ToNumber coerce JUndefined = NaN"
| "ToNumber coerce JNull = Fin 0"
| "ToNumber coerce (JBool b) = (if b then Fin 1 else Fin 0)"
| "ToNumber coerce (JNum x) = x"
| "ToNumber coerce v = coerce v"

text \<open>
  Reading a property, for the names the handlers read (\<^verbatim>\<open>fileKey\<close>, \<^verbatim>\<open>fileKeys\<close>,
  \<^verbatim>\<open>rotation\<close>, \<^verbatim>\<open>length\<close>). \<^verbatim>\<open>JSON.parse\<close> keeps the last of two equal keys.
\<close>

fun getProperty :: "jsvalue \<Rightarrow> string \<Rightarrow> fault + jsvalue" where
  "getProperty JUndefined name = Inl TypeError"
| "getProperty JNull name = Inl TypeError"
| "getProperty (JObj kvs) name =
     Inr (case map_of (rev kvs) name of None \<Rightarrow> JUndefined | Some v \<Rightarrow> v)"
| "getProperty (JArr xs) name =
     Inr (if name = ''length'' then JNum (Fin (of_nat (length xs))) else JUndefined)"
| "getProperty (JStr s) name =
     Inr (if name = ''length'' then JNum (Fin (of_nat (length s))) else JUndefined)"
| "getProperty v name = Inr JUndefined"

text \<open>The values a \<^verbatim>\<open>for ... of\<close> loop runs through.\<close>

fun iterate :: "jsvalue \<Rightarrow> fault + jsvalue list" where
  "iterate (JArr xs) = Inr xs"
| "iterate (JStr s) = Inr (map (\<lambda>c. JStr [c]) s)"
| "iterate v = Inl TypeError"

text \<open>Decimal rendering of a natural number, as a template literal interpolates it.\<close>

definition digit :: "nat \<Rightarrow> char" where
  "digit d = char_of (48 + d)"

fun show_nat :: "nat \<Rightarrow> string" where
  "show_nat n = (if n < 10 then [digit n] else show_nat (n div 10) @ [digit (n mod 10)])"

declare show_nat.simps [simp del]

section \<open>Documents of the PDF library\<close>

type_synonym bytes = "8 word list"

record page =
  content :: bytes
  rotation :: jsnum

record document =
  pages :: "page list"

datatype load_options = LoadDefault | IgnoreEncryption bool

datatype save_options = SaveDefault | UseObjectStreams bool

text \<open>
  The collaborators that are not code of this repository: the PDF library's decoder
  (\<^verbatim>\<open>PDFDocument.load\<close>, \<open>None\<close> when it raises) and encoder (\<^verbatim>\<open>save\<close>), the URL
  signer, and the language's conversions between numbers and strings.
\<close>

record env =
  load :: "load_options \<Rightarrow> bytes \<Rightarrow> document option"
  save :: "save_options \<Rightarrow> document \<Rightarrow> bytes"
  presign :: "jsvalue \<Rightarrow> nat \<Rightarrow> string"
  coerce :: "jsvalue \<Rightarrow> jsnum"
  NumberToString :: "jsnum \<Rightarrow> string"

definition PDFDocument_create :: document where
  "PDFDocument_create = \<lparr>pages = []\<rparr>"

definition getPageIndices :: "document \<Rightarrow> nat list" where
  "getPageIndices pdf = [0..<length (pages pdf)]"

definition getPageCount :: "document \<Rightarrow> nat" where
  "getPageCount pdf = length (pages pdf)"

text \<open>\<^verbatim>\<open>copyPages\<close> clones the pages at the given indices; an index out of range raises.\<close>

fun copyPages :: "document \<Rightarrow> nat list \<Rightarrow> fault + page list" where
  "copyPages src [] = Inr []"
| "copyPages src (i # is) =
     (if i < length (pages src) then
        (case copyPages src is of Inl e \<Rightarrow> Inl e | Inr ps \<Rightarrow> Inr (pages src ! i # ps))
      else Inl RangeError)"

definition addPage :: "document \<Rightarrow> page \<Rightarrow> document" where
  "addPage pdf p = pdf\<lparr>pages := pages pdf @ [p]\<rparr>"

section \<open>Object storage\<close>

text \<open>
  A stored object is described by the stream a \<^verbatim>\<open>GetObject\<close> delivers for it and by the
  declared size of the response. The world holds the bucket, the requests that fail
  (refused or interrupted), the clock read by \<^verbatim>\<open>Date.now()\<close>, and the trace of every
  request sent to the storage client, in order.
\<close>

datatype stream = Chunks "bytes list" | Broken "bytes list"

record s3object =
  Body :: stream
  ContentLength :: nat
  ContentType :: string

datatype command =
    GetObjectCommand jsvalue
  | PutObjectCommand jsvalue bytes string
  | GetSignedUrl jsvalue nat

record world =
  objects :: "jsvalue \<Rightarrow> s3object option"
  fails :: "command \<Rightarrow> bool"
  now :: nat
  trace :: "command list"

definition sent :: "command \<Rightarrow> world \<Rightarrow> world" where
  "sent c w = w\<lparr>trace := trace w @ [c]\<rparr>"

definition s3_get :: "jsvalue \<Rightarrow> world \<Rightarrow> (fault + s3object) \<times> world" where
  "s3_get k w =
     (if fails w (GetObjectCommand k) then (Inl IOError, sent (GetObjectCommand k) w)
      else case objects w k of
             None \<Rightarrow> (Inl NotFound, sent (GetObjectCommand k) w)
           | Some ob \<Rightarrow> (Inr ob, sent (GetObjectCommand k) w))"

definition s3_put :: "jsvalue \<Rightarrow> bytes \<Rightarrow> string \<Rightarrow> world \<Rightarrow> (fault + unit) \<times> world" where
  "s3_put k b ct w =
     (if fails w (PutObjectCommand k b ct) then (Inl IOError, sent (PutObjectCommand k b ct) w)
      else (Inr (),
            (sent (PutObjectCommand k b ct) w)
              \<lparr>objects := (objects w)(k \<mapsto> \<lparr>Body = Chunks [b], ContentLength = length b,
                                              ContentType = ct\<rparr>)\<rparr>))"

definition getSignedUrl :: "env \<Rightarrow> jsvalue \<Rightarrow> nat \<Rightarrow> world \<Rightarrow> (fault + string) \<times> world" where
  "getSignedUrl env k expiresIn w =
     (if fails w (GetSignedUrl k expiresIn) then (Inl IOError, sent (GetSignedUrl k expiresIn) w)
      else (Inr (presign env k expiresIn), sent (GetSignedUrl k expiresIn) w))"

fun streamToBuffer :: "stream \<Rightarrow> fault + bytes" where
  "streamToBuffer (Chunks chunks) = Inr (concat chunks)"
| "streamToBuffer (Broken chunks) = Inl IOError"

text \<open>The download helper of merge, split and rotate.\<close>

definition downloadPdfFromS3 :: "jsvalue \<Rightarrow> world \<Rightarrow> (fault + bytes) \<times> world" where
  "downloadPdfFromS3 fileKey w =
     (case s3_get fileKey w of
        (Inl e, w') \<Rightarrow> (Inl e, w')
      | (Inr response, w') \<Rightarrow> (streamToBuffer (Body response), w'))"

text \<open>The download helper of compress also returns the declared size.\<close>

definition downloadPdfFromS3_sized :: "jsvalue \<Rightarrow> world \<Rightarrow> (fault + bytes \<times> nat) \<times> world" where
  "downloadPdfFromS3_sized fileKey w =
     (case s3_get fileKey w of
        (Inl e, w') \<Rightarrow> (Inl e, w')
      | (Inr response, w') \<Rightarrow>
          (case streamToBuffer (Body response) of
             Inl e \<Rightarrow> (Inl e, w')
           | Inr buffer \<Rightarrow> (Inr (buffer, ContentLength response), w')))"

text \<open>The upload helpers: store, then sign a download link for the same key.\<close>

definition uploadPdfToS3 :: "env \<Rightarrow> bytes \<Rightarrow> jsvalue \<Rightarrow> world \<Rightarrow> (fault + string) \<times> world" where
  "uploadPdfToS3 env pdfBytes outputKey w =
     (case s3_put outputKey pdfBytes ''application/pdf'' w of
        (Inl e, w') \<Rightarrow> (Inl e, w')
      | (Inr u, w') \<Rightarrow> getSignedUrl env outputKey 3600 w')"

definition uploadCompressedPdfToS3 ::
  "env \<Rightarrow> bytes \<Rightarrow> jsvalue \<Rightarrow> world \<Rightarrow> (fault + string) \<times> world" where
  "uploadCompressedPdfToS3 env pdfBytes outputKey w =
     (case s3_put outputKey pdfBytes ''application/pdf'' w of
        (Inl e, w') \<Rightarrow> (Inl e, w')
      | (Inr u, w') \<Rightarrow> getSignedUrl env outputKey 3600 w')"

definition uploadRotatedPdfToS3 ::
  "env \<Rightarrow> bytes \<Rightarrow> jsvalue \<Rightarrow> world \<Rightarrow> (fault + string) \<times> world" where
  "uploadRotatedPdfToS3 env pdfBytes outputKey w =
     (case s3_put outputKey pdfBytes ''application/pdf'' w of
        (Inl e, w') \<Rightarrow> (Inl e, w')
      | (Inr u, w') \<Rightarrow> getSignedUrl env outputKey 3600 w')"

record page_result =
  pageNumber :: nat
  downloadUrl :: string
  outputKey :: jsvalue

definition split_key :: "nat \<Rightarrow> nat \<Rightarrow> jsvalue" where
  "split_key timestamp n =
     JStr (''processed/split-'' @ show_nat timestamp @ ''-page-'' @ show_nat n @ ''.pdf'')"

definition uploadPageToS3 ::
  "env \<Rightarrow> bytes \<Rightarrow> nat \<Rightarrow> nat \<Rightarrow> world \<Rightarrow> (fault + page_result) \<times> world" where
  "uploadPageToS3 env pageBytes n timestamp w =
     (case s3_put (split_key timestamp n) pageBytes ''application/pdf'' w of
        (Inl e, w') \<Rightarrow> (Inl e, w')
      | (Inr u, w') \<Rightarrow>
          (case getSignedUrl env (split_key timestamp n) 3600 w' of
             (Inl e, w'') \<Rightarrow> (Inl e, w'')
           | (Inr signedUrl, w'') \<Rightarrow>
               (Inr \<lparr>pageNumber = n, downloadUrl = signedUrl,
                     outputKey = split_key timestamp n\<rparr>, w'')))"

section \<open>Requests and responses\<close>

text \<open>
  The event is modelled by what \<^verbatim>\<open>JSON.parse(event.body)\<close> yields: \<open>None\<close> when it
  raises. A handler either raises (\<open>Inl\<close>: no handler has a \<^verbatim>\<open>try\<close>, so the fault
  leaves the handler and no response object is built) or returns a response (\<open>Inr\<close>).
\<close>

record event =
  event_body :: "jsvalue option"

datatype response_body =
    ErrorBody string
  | MergeBody string string jsvalue
  | SplitBody string nat "page_result list"
  | CompressBody string string jsvalue string string jsnum
  | RotateBody string string jsvalue nat jsnum

record response =
  statusCode :: nat
  headers :: "(string \<times> string) list"
  body :: response_body

definition corsHeaders :: "(string \<times> string) list" where
  "corsHeaders =
     [(''Access-Control-Allow-Origin'', ''*''),
      (''Access-Control-Allow-Headers'', ''Content-Type''),
      (''Access-Control-Allow-Methods'', ''POST, OPTIONS'')]"

definition bad_request :: "string \<Rightarrow> response" where
  "bad_request msg = \<lparr>statusCode = 400, headers = corsHeaders, body = ErrorBody msg\<rparr>"

section \<open>Merge\<close>

text \<open>The \<^verbatim>\<open>for (const fileKey of fileKeys)\<close> loop of the merge handler.\<close>

fun mergeLoop :: "env \<Rightarrow> jsvalue list \<Rightarrow> document \<Rightarrow> world \<Rightarrow> (fault + document) \<times> world" where
  "mergeLoop env [] mergedPdf w = (Inr mergedPdf, w)"
| "mergeLoop env (fileKey # rest) mergedPdf w =
     (case downloadPdfFromS3 fileKey w of
        (Inl e, w') \<Rightarrow> (Inl e, w')
      | (Inr pdfBuffer, w') \<Rightarrow>
          (case load env LoadDefault pdfBuffer of
             None \<Rightarrow> (Inl DecodeError, w')
           | Some pdf \<Rightarrow>
               (case copyPages pdf (getPageIndices pdf) of
                  Inl e \<Rightarrow> (Inl e, w')
                | Inr copiedPages \<Rightarrow>
                    mergeLoop env rest (foldl addPage mergedPdf copiedPages) w')))"

definition merged_key :: "nat \<Rightarrow> jsvalue" where
  "merged_key t = JStr (''processed/merged-'' @ show_nat t @ ''.pdf'')"

definition merge_handler :: "env \<Rightarrow> event \<Rightarrow> world \<Rightarrow> (fault + response) \<times> world" where
  "merge_handler env ev w =
     (case event_body ev of
        None \<Rightarrow> (Inl SyntaxError, w)
      | Some reqBody \<Rightarrow>
     (case getProperty reqBody ''fileKeys'' of
        Inl e \<Rightarrow> (Inl e, w)
      | Inr fileKeys \<Rightarrow>
          if \<not> truthy fileKeys
          then (Inr (bad_request ''Please provide at least 2 PDF files to merge''), w)
          else
     (case getProperty fileKeys ''length'' of
        Inl e \<Rightarrow> (Inl e, w)
      | Inr len \<Rightarrow>
          if js_lt (ToNumber (coerce env) len) (Fin 2)
          then (Inr (bad_request ''Please provide at least 2 PDF files to merge''), w)
          else
     (case iterate fileKeys of
        Inl e \<Rightarrow> (Inl e, w)
      | Inr keys \<Rightarrow>
     (case mergeLoop env keys PDFDocument_create w of
        (Inl e, w1) \<Rightarrow> (Inl e, w1)
      | (Inr mergedPdf, w1) \<Rightarrow>
     (case uploadPdfToS3 env (save env SaveDefault mergedPdf) (merged_key (now w1)) w1 of
        (Inl e, w2) \<Rightarrow> (Inl e, w2)
      | (Inr url, w2) \<Rightarrow>
          (Inr \<lparr>statusCode = 200, headers = corsHeaders,
                body = MergeBody ''PDFs merged successfully'' url (merged_key (now w1))\<rparr>,
           w2)))))))"

section \<open>Split\<close>

text \<open>The \<^verbatim>\<open>for (let i = 0; i < pageCount; i++)\<close> loop of the split handler.\<close>

function splitLoop ::
  "env \<Rightarrow> document \<Rightarrow> nat \<Rightarrow> nat \<Rightarrow> nat \<Rightarrow> page_result list \<Rightarrow> world
     \<Rightarrow> (fault + page_result list) \<times> world" where
  "splitLoop env pdf timestamp pageCount i results w =
     (if i < pageCount then
        (case copyPages pdf [i] of
           Inl e \<Rightarrow> (Inl e, w)
         | Inr [] \<Rightarrow> (Inl TypeError, w)
         | Inr (copiedPage # others) \<Rightarrow>
             (case uploadPageToS3 env
                     (save env SaveDefault (addPage PDFDocument_create copiedPage))
                     (i + 1) timestamp w of
                (Inl e, w') \<Rightarrow> (Inl e, w')
              | (Inr pageResult, w') \<Rightarrow>
                  splitLoop env pdf timestamp pageCount (i + 1) (results @ [pageResult]) w'))
      else (Inr results, w))"
  by pat_completeness auto
termination
  by (relation "measure (\<lambda>(env, pdf, timestamp, pageCount, i, results, w). pageCount - i)") auto

declare splitLoop.simps [simp del]

definition split_handler :: "env \<Rightarrow> event \<Rightarrow> world \<Rightarrow> (fault + response) \<times> world" where
  "split_handler env ev w =
     (case event_body ev of
        None \<Rightarrow> (Inl SyntaxError, w)
      | Some reqBody \<Rightarrow>
     (case getProperty reqBody ''fileKey'' of
        Inl e \<Rightarrow> (Inl e, w)
      | Inr fileKey \<Rightarrow>
          if \<not> truthy fileKey
          then (Inr (bad_request ''Please provide a PDF file to split''), w)
          else
     (case downloadPdfFromS3 fileKey w of
        (Inl e, w1) \<Rightarrow> (Inl e, w1)
      | (Inr pdfBuffer, w1) \<Rightarrow>
     (case load env LoadDefault pdfBuffer of
        None \<Rightarrow> (Inl DecodeError, w1)
      | Some pdf \<Rightarrow>
          if getPageCount pdf < 2
          then (Inr (bad_request ''PDF must have at least 2 pages to split''), w1)
          else
     (case splitLoop env pdf (now w1) (getPageCount pdf) 0 [] w1 of
        (Inl e, w2) \<Rightarrow> (Inl e, w2)
      | (Inr results, w2) \<Rightarrow>
          (Inr \<lparr>statusCode = 200, headers = corsHeaders,
                body = SplitBody (''PDF split into '' @ show_nat (getPageCount pdf)
                                    @ '' pages successfully'')
                         (getPageCount pdf) results\<rparr>,
           w2))))))"

section \<open>Compress\<close>

definition compressPdf :: "env \<Rightarrow> bytes \<Rightarrow> fault + bytes" where
  "compressPdf env pdfBuffer =
     (case load env (IgnoreEncryption True) pdfBuffer of
        None \<Rightarrow> Inl DecodeError
      | Some pdf \<Rightarrow> Inr (save env (UseObjectStreams True) pdf))"

text \<open>\<^verbatim>\<open>x.toFixed(1)\<close> for \<open>x \<ge> 0\<close>: the nearest tenth, a tie going up.\<close>

definition toFixed1 :: "rat \<Rightarrow> string" where
  "toFixed1 x =
     (let n = nat \<lfloor>x * 10 + 1 / 2\<rfloor> in show_nat (n div 10) @ ''.'' @ show_nat (n mod 10))"

definition formatBytes :: "nat \<Rightarrow> string" where
  "formatBytes n =
     (if n < 1024 then show_nat n @ '' B''
      else if n < 1024 * 1024 then toFixed1 (of_nat n / 1024) @ '' KB''
      else toFixed1 (of_nat n / (1024 * 1024)) @ '' MB'')"

definition savedPercent :: "nat \<Rightarrow> nat \<Rightarrow> jsnum" where
  "savedPercent compressedSize originalSize =
     Math_round (js_mul (js_sub (Fin 1)
                           (js_div (Fin (of_nat compressedSize)) (Fin (of_nat originalSize))))
                        (Fin 100))"

text \<open>The reported value: \<^verbatim>\<open>savedPercent > 0 ? savedPercent : 0\<close>.\<close>

definition clampPercent :: "jsnum \<Rightarrow> jsnum" where
  "clampPercent p = (if js_gt p (Fin 0) then p else Fin 0)"

definition compressed_key :: "nat \<Rightarrow> jsvalue" where
  "compressed_key t = JStr (''processed/compressed-'' @ show_nat t @ ''.pdf'')"

definition compress_handler :: "env \<Rightarrow> event \<Rightarrow> world \<Rightarrow> (fault + response) \<times> world" where
  "compress_handler env ev w =
     (case event_body ev of
        None \<Rightarrow> (Inl SyntaxError, w)
      | Some reqBody \<Rightarrow>
     (case getProperty reqBody ''fileKey'' of
        Inl e \<Rightarrow> (Inl e, w)
      | Inr fileKey \<Rightarrow>
          if \<not> truthy fileKey
          then (Inr (bad_request ''Please provide a PDF file to compress''), w)
          else
     (case downloadPdfFromS3_sized fileKey w of
        (Inl e, w1) \<Rightarrow> (Inl e, w1)
      | (Inr (pdfBuffer, originalSize), w1) \<Rightarrow>
     (case compressPdf env pdfBuffer of
        Inl e \<Rightarrow> (Inl e, w1)
      | Inr compressedBytes \<Rightarrow>
     (case uploadCompressedPdfToS3 env compressedBytes (compressed_key (now w1)) w1 of
        (Inl e, w2) \<Rightarrow> (Inl e, w2)
      | (Inr url, w2) \<Rightarrow>
          (Inr \<lparr>statusCode = 200, headers = corsHeaders,
                body = CompressBody ''PDF compressed successfully'' url
                         (compressed_key (now w1))
                         (formatBytes originalSize)
                         (formatBytes (length compressedBytes))
                         (clampPercent (savedPercent (length compressedBytes) originalSize))\<rparr>,
           w2))))))"

section \<open>Rotate\<close>

definition validAngles :: "jsnum list" where
  "validAngles = [Fin 90, Fin (- 90), Fin 180]"


text \<open>
  The \<^verbatim>\<open>pages.forEach\<close> loop of the rotate handler; \<^verbatim>\<open>setRotation\<close> is modelled as
  storing the angle it is given.
\<close>

definition rotatePages :: "jsnum \<Rightarrow> page list \<Rightarrow> page list" where
  "rotatePages rotationAngle ps =
     map (\<lambda>p. let currentRotation = rotation p;
                  newRotation = js_add currentRotation rotationAngle
              in p\<lparr>rotation := newRotation\<rparr>) ps"



section \<open>Valid sources and stored objects\<close>

text \<open>
  The document a storage key denotes for merge, split and rotate: what the download helper
  and the decoder yield for it, \<open>None\<close> when either raises.
\<close>

definition source :: "env \<Rightarrow> world \<Rightarrow> jsvalue \<Rightarrow> document option" where
  "source env w k =
     (if fails w (GetObjectCommand k) then None
      else case objects w k of
             None \<Rightarrow> None
           | Some ob \<Rightarrow>
               (case streamToBuffer (Body ob) of
                  Inl e \<Rightarrow> None
                | Inr buffer \<Rightarrow> load env LoadDefault buffer))"

text \<open>The object a successful upload leaves under its key.\<close>

definition stored :: "bytes \<Rightarrow> s3object" where
  "stored b = \<lparr>Body = Chunks [b], ContentLength = length b, ContentType = ''application/pdf''\<rparr>"

text \<open>
  For split: the file written for the page at index \<open>i\<close>, the entry returned for it, and
  the world after its upload.
\<close>

definition page_file :: "env \<Rightarrow> document \<Rightarrow> nat \<Rightarrow> bytes" where
  "page_file env src i = save env SaveDefault \<lparr>pages = [pages src ! i]\<rparr>"

definition page_entry :: "env \<Rightarrow> nat \<Rightarrow> nat \<Rightarrow> page_result" where
  "page_entry env t i =
     \<lparr>pageNumber = i + 1, downloadUrl = presign env (split_key t (i + 1)) 3600,
      outputKey = split_key t (i + 1)\<rparr>"

definition page_uploaded :: "env \<Rightarrow> document \<Rightarrow> nat \<Rightarrow> world \<Rightarrow> nat \<Rightarrow> world" where
  "page_uploaded env src t w i =
     w\<lparr>trace := trace w @ [PutObjectCommand (split_key t (i + 1)) (page_file env src i)
                               ''application/pdf'',
                            GetSignedUrl (split_key t (i + 1)) 3600],
       objects := (objects w)(split_key t (i + 1) \<mapsto> stored (page_file env src i))\<rparr>"

section \<open>Sample data\<close>

text \<open>
  A small collaborator set and bucket for concrete runs: a file is a sequence of two-byte
  pages (content byte, quarter turns), and an odd-length or empty file does not decode.
  The encoder keeps the content bytes; a second encoder appends five bytes, so that its
  output can exceed its input. In the second world every write fails.
\<close>

fun decode_pages :: "bytes \<Rightarrow> page list option" where
  "decode_pages [] = Some []"
| "decode_pages [c] = None"
| "decode_pages (c # r # rest) =
     map_option (\<lambda>ps. \<lparr>content = [c], rotation = Fin (90 * of_nat (unat r))\<rparr> # ps)
       (decode_pages rest)"

definition sample_env :: env where
  "sample_env =
     \<lparr>load = (\<lambda>opts b. if b = [] then None
                       else map_option (\<lambda>ps. \<lparr>pages = ps\<rparr>) (decode_pages b)),
      save = (\<lambda>opts d. concat (map content (pages d))),
      presign = (\<lambda>k secs. ''https://signed''),
      coerce = (\<lambda>v. if v = JStr ''90'' then Fin 90 else NaN),
      NumberToString = (\<lambda>x. if x = Fin 180 then ''180'' else if x = Fin 90 then ''90''
                            else if x = Fin (- 90) then ''-90'' else ''NaN'')\<rparr>"

definition sample_padding_env :: env where
  "sample_padding_env =
     sample_env\<lparr>save := (\<lambda>opts d. concat (map content (pages d)) @ [0, 0, 0, 0, 0])\<rparr>"

definition sample_world :: world where
  "sample_world =
     \<lparr>objects = (\<lambda>k.
        if k = JStr ''uploads/a.pdf''
        then Some \<lparr>Body = Chunks [[1, 3], [2, 0]], ContentLength = 4, ContentType = ''application/pdf''\<rparr>
        else if k = JStr ''uploads/b.pdf''
        then Some \<lparr>Body = Chunks [[7, 1]], ContentLength = 2, ContentType = ''application/pdf''\<rparr>
        else if k = JStr ''uploads/bad.pdf''
        then Some \<lparr>Body = Chunks [[9]], ContentLength = 1, ContentType = ''application/pdf''\<rparr>
        else None),
      fails = (\<lambda>c. False),
      now = 1700,
      trace = []\<rparr>"

definition sample_outage :: world where
  "sample_outage =
     sample_world\<lparr>fails := (\<lambda>c. case c of PutObjectCommand k b ct \<Rightarrow> True | _ \<Rightarrow> False)\<rparr>"

definition page_a1 :: page where "page_a1 = \<lparr>content = [1], rotation = Fin 270\<rparr>"
definition page_a2 :: page where "page_a2 = \<lparr>content = [2], rotation = Fin 0\<rparr>"
definition page_b1 :: page where "page_b1 = \<lparr>content = [7], rotation = Fin 90\<rparr>"

section \<open>Auxiliary facts\<close>

lemma copyPages_in_range:
  "\<forall>i\<in>set ixs. i < length (pages src) \<Longrightarrow> copyPages src ixs = Inr (map ((!) (pages src)) ixs)"
  by (induction ixs) auto

lemma copyPages_all: "copyPages pdf (getPageIndices pdf) = Inr (pages pdf)"
  by (simp add: getPageIndices_def copyPages_in_range map_nth)

lemma foldl_addPage: "foldl addPage d ps = d\<lparr>pages := pages d @ ps\<rparr>"
  by (induction ps arbitrary: d) (auto simp: addPage_def)

lemma digit_inj: "a < 10 \<Longrightarrow> b < 10 \<Longrightarrow> digit a = digit b \<Longrightarrow> a = b"
  by (simp add: digit_def char_of_eq_iff take_bit_eq_mod)

lemma show_nat_length: "10 \<le> n \<Longrightarrow> 2 \<le> length (show_nat n)"
proof -
  assume "10 \<le> n"
  then have "show_nat n = show_nat (n div 10) @ [digit (n mod 10)]"
    by (subst show_nat.simps) simp
  moreover have "1 \<le> length (show_nat (n div 10))"
    by (subst show_nat.simps) simp
  ultimately show ?thesis by simp
qed

lemma show_nat_inj: "show_nat m = show_nat n \<Longrightarrow> m = n"
proof (induction m arbitrary: n rule: less_induct)
  case (less m)
  show ?case
  proof (cases "m < 10")
    case True
    note m = this
    show ?thesis
    proof (cases "n < 10")
      case True
      with m less.prems show ?thesis
        by (simp add: show_nat.simps[of m] show_nat.simps[of n] digit_inj)
    next
      case False
      then have "2 \<le> length (show_nat n)" by (simp add: show_nat_length)
      moreover from m have "length (show_nat m) = 1" by (simp add: show_nat.simps[of m])
      ultimately show ?thesis using less.prems by simp
    qed
  next
    case False
    note m = this
    show ?thesis
    proof (cases "n < 10")
      case True
      then have "length (show_nat n) = 1" by (simp add: show_nat.simps[of n])
      moreover from m have "2 \<le> length (show_nat m)" by (simp add: show_nat_length)
      ultimately show ?thesis using less.prems by simp
    next
      case False
      from m have em: "show_nat m = show_nat (m div 10) @ [digit (m mod 10)]"
        by (subst show_nat.simps) simp
      from False have en: "show_nat n = show_nat (n div 10) @ [digit (n mod 10)]"
        by (subst show_nat.simps) simp
      from less.prems em en
      have a: "show_nat (m div 10) = show_nat (n div 10)" and b: "digit (m mod 10) = digit (n mod 10)"
        by simp_all
      from m have "m div 10 < m" by simp
      from less.IH[OF this a] have "m div 10 = n div 10" .
      moreover from b have "m mod 10 = n mod 10" by (intro digit_inj) simp_all
      ultimately show ?thesis by (metis div_mult_mod_eq)
    qed
  qed
qed

lemma split_key_inj: "split_key t m = split_key t n \<Longrightarrow> m = n"
  by (simp add: split_key_def show_nat_inj)

lemma source_sent [simp]: "source env (sent c w) k = source env w k"
  by (simp add: source_def sent_def)

lemma download_source:
  "source env w k = Some d \<Longrightarrow>
   \<exists>b. downloadPdfFromS3 k w = (Inr b, sent (GetObjectCommand k) w) \<and> load env LoadDefault b = Some d"
  by (auto simp: source_def downloadPdfFromS3_def s3_get_def split: if_splits option.splits sum.splits)

lemma mergeLoop_valid:
  "list_all2 (\<lambda>k d. source env w k = Some d) ks ds \<Longrightarrow>
   mergeLoop env ks dest w =
     (Inr (dest\<lparr>pages := pages dest @ concat (map pages ds)\<rparr>),
      w\<lparr>trace := trace w @ map GetObjectCommand ks\<rparr>)"
proof (induction ks arbitrary: ds dest w)
  case Nil
  then show ?case by simp
next
  case (Cons k ks)
  from Cons.prems obtain d ds' where ds: "ds = d # ds'" and d: "source env w k = Some d"
    and rest: "list_all2 (\<lambda>k d. source env w k = Some d) ks ds'"
    by (auto simp: list_all2_Cons1)
  from download_source[OF d] obtain b where
    b: "downloadPdfFromS3 k w = (Inr b, sent (GetObjectCommand k) w)" "load env LoadDefault b = Some d"
    by blast
  from rest have "list_all2 (\<lambda>x d. source env (sent (GetObjectCommand k) w) x = Some d) ks ds'"
    by simp
  from Cons.IH[OF this] show ?case
    by (simp add: b ds copyPages_all foldl_addPage sent_def)
qed

section \<open>Properties of the handlers\<close>

lemma sample_source_a: "source sample_env sample_world (JStr ''uploads/a.pdf'') = Some \<lparr>pages = [page_a1, page_a2]\<rparr>"
  by (simp add: source_def sample_env_def sample_world_def page_a1_def page_a2_def)

lemma sample_source_b: "source sample_env sample_world (JStr ''uploads/b.pdf'') = Some \<lparr>pages = [page_b1]\<rparr>"
  by (simp add: source_def sample_env_def sample_world_def page_b1_def)

lemma show_1700: "show_nat 1700 = ''1700''"
  by code_simp

text \<open>
  Claim C1. A merge request whose \<^verbatim>\<open>fileKeys\<close> is a list of \<open>N \<ge> 2\<close> keys, each
  denoting a valid source document, stores (when the write and the signing do not fail) the
  serialisation of a document whose page sequence is the concatenation of the sources' page
  sequences, in the order of \<^verbatim>\<open>fileKeys\<close> and with each source's own order kept;
  its page count is the sum of the sources' page counts. The handler answers 200.
\<close>

theorem merge_concatenates_sources:
  assumes "event_body ev = Some reqBody"
    and "getProperty reqBody ''fileKeys'' = Inr (JArr ks)"
    and "2 \<le> length ks"
    and "list_all2 (\<lambda>k d. source env w k = Some d) ks ds"
    and "\<not> fails w (PutObjectCommand (merged_key (now w))
                      (save env SaveDefault \<lparr>pages = concat (map pages ds)\<rparr>) ''application/pdf'')"
    and "\<not> fails w (GetSignedUrl (merged_key (now w)) 3600)"
  shows "merge_handler env ev w =
           (Inr \<lparr>statusCode = 200, headers = corsHeaders,
                 body = MergeBody ''PDFs merged successfully''
                          (presign env (merged_key (now w)) 3600) (merged_key (now w))\<rparr>,
            w\<lparr>trace := trace w @ map GetObjectCommand ks
                        @ [PutObjectCommand (merged_key (now w))
                             (save env SaveDefault \<lparr>pages = concat (map pages ds)\<rparr>)
                             ''application/pdf'',
                           GetSignedUrl (merged_key (now w)) 3600],
              objects := (objects w)(merged_key (now w) \<mapsto>
                           stored (save env SaveDefault \<lparr>pages = concat (map pages ds)\<rparr>))\<rparr>)
         \<and> getPageCount \<lparr>pages = concat (map pages ds)\<rparr> = sum_list (map getPageCount ds)"
proof
  have len: "\<not> js_lt (Fin (of_nat (length ks))) (Fin 2)"
    using assms(3) by simp
  have loop: "mergeLoop env ks PDFDocument_create w =
                (Inr \<lparr>pages = concat (map pages ds)\<rparr>, w\<lparr>trace := trace w @ map GetObjectCommand ks\<rparr>)"
    using mergeLoop_valid[OF assms(4), of PDFDocument_create] by (simp add: PDFDocument_create_def)
  show "merge_handler env ev w =
           (Inr \<lparr>statusCode = 200, headers = corsHeaders,
                 body = MergeBody ''PDFs merged successfully''
                          (presign env (merged_key (now w)) 3600) (merged_key (now w))\<rparr>,
            w\<lparr>trace := trace w @ map GetObjectCommand ks
                        @ [PutObjectCommand (merged_key (now w))
                             (save env SaveDefault \<lparr>pages = concat (map pages ds)\<rparr>)
                             ''application/pdf'',
                           GetSignedUrl (merged_key (now w)) 3600],
              objects := (objects w)(merged_key (now w) \<mapsto>
                           stored (save env SaveDefault \<lparr>pages = concat (map pages ds)\<rparr>))\<rparr>)"
    using assms(5,6) len
    by (simp add: merge_handler_def assms(1,2) loop uploadPdfToS3_def s3_put_def
        getSignedUrl_def sent_def stored_def)
  show "getPageCount \<lparr>pages = concat (map pages ds)\<rparr> = sum_list (map getPageCount ds)"
    by (simp add: getPageCount_def [abs_def] length_concat comp_def)
qed

theorem merge_concatenates_sources_witness:
  "event_body \<lparr>event_body = Some (JObj [(''fileKeys'', JArr [JStr ''uploads/a.pdf'', JStr ''uploads/b.pdf''])])\<rparr>
     = Some (JObj [(''fileKeys'', JArr [JStr ''uploads/a.pdf'', JStr ''uploads/b.pdf''])])
   \<and> 2 \<le> length [JStr ''uploads/a.pdf'', JStr ''uploads/b.pdf'']
   \<and> fst (merge_handler sample_env
        \<lparr>event_body = Some (JObj [(''fileKeys'', JArr [JStr ''uploads/a.pdf'', JStr ''uploads/b.pdf''])])\<rparr>
        sample_world)
      = Inr \<lparr>statusCode = 200, headers = corsHeaders,
             body = MergeBody ''PDFs merged successfully'' ''https://signed''
                      (JStr ''processed/merged-1700.pdf'')\<rparr>
   \<and> objects (snd (merge_handler sample_env
        \<lparr>event_body = Some (JObj [(''fileKeys'', JArr [JStr ''uploads/a.pdf'', JStr ''uploads/b.pdf''])])\<rparr>
        sample_world)) (JStr ''processed/merged-1700.pdf'')
      = Some (stored (save sample_env SaveDefault \<lparr>pages = [page_a1, page_a2, page_b1]\<rparr>))
   \<and> getPageCount \<lparr>pages = [page_a1, page_a2, page_b1]\<rparr> = 2 + 1"
proof -
  have src: "list_all2 (\<lambda>k d. source sample_env sample_world k = Some d)
               [JStr ''uploads/a.pdf'', JStr ''uploads/b.pdf'']
               [\<lparr>pages = [page_a1, page_a2]\<rparr>, \<lparr>pages = [page_b1]\<rparr>]"
    by (simp add: sample_source_a sample_source_b)
  have nofail: "\<And>c. \<not> fails sample_world c" by (simp add: sample_world_def)
  have t: "now sample_world = 1700" by (simp add: sample_world_def)
  show ?thesis
    using merge_concatenates_sources[of
        "\<lparr>event_body = Some (JObj [(''fileKeys'', JArr [JStr ''uploads/a.pdf'', JStr ''uploads/b.pdf''])])\<rparr>"
        "JObj [(''fileKeys'', JArr [JStr ''uploads/a.pdf'', JStr ''uploads/b.pdf''])]"
        "[JStr ''uploads/a.pdf'', JStr ''uploads/b.pdf'']" sample_env sample_world
        "[\<lparr>pages = [page_a1, page_a2]\<rparr>, \<lparr>pages = [page_b1]\<rparr>]", OF _ _ _ src nofail nofail]
    by (simp add: t merged_key_def show_1700 getPageCount_def sample_env_def)
qed

text \<open>
  Claim C9. In each of the four upload helpers the signing step runs only after the store
  step has returned: when the \<^verbatim>\<open>PutObject\<close> request fails, the helper raises that
  fault, the bucket is unchanged and the trace ends with the failed write (no signing);
  when it does not fail, the trace continues with the write followed by the signing, and
  the bucket holds the written bytes under the key that is signed.
\<close>

theorem sign_only_after_store:
  "(fails w (PutObjectCommand k b ''application/pdf'') \<longrightarrow>
      uploadPdfToS3 env b k w
        = (Inl IOError, w\<lparr>trace := trace w @ [PutObjectCommand k b ''application/pdf'']\<rparr>)
    \<and> uploadCompressedPdfToS3 env b k w
        = (Inl IOError, w\<lparr>trace := trace w @ [PutObjectCommand k b ''application/pdf'']\<rparr>)
    \<and> uploadRotatedPdfToS3 env b k w
        = (Inl IOError, w\<lparr>trace := trace w @ [PutObjectCommand k b ''application/pdf'']\<rparr>))
   \<and> (fails w (PutObjectCommand (split_key t n) b ''application/pdf'') \<longrightarrow>
      uploadPageToS3 env b n t w
        = (Inl IOError,
           w\<lparr>trace := trace w @ [PutObjectCommand (split_key t n) b ''application/pdf'']\<rparr>))
   \<and> (\<not> fails w (PutObjectCommand k b ''application/pdf'') \<longrightarrow>
      trace (snd (uploadPdfToS3 env b k w))
        = trace w @ [PutObjectCommand k b ''application/pdf'', GetSignedUrl k 3600]
    \<and> objects (snd (uploadPdfToS3 env b k w)) k = Some (stored b)
    \<and> trace (snd (uploadCompressedPdfToS3 env b k w))
        = trace w @ [PutObjectCommand k b ''application/pdf'', GetSignedUrl k 3600]
    \<and> objects (snd (uploadCompressedPdfToS3 env b k w)) k = Some (stored b)
    \<and> trace (snd (uploadRotatedPdfToS3 env b k w))
        = trace w @ [PutObjectCommand k b ''application/pdf'', GetSignedUrl k 3600]
    \<and> objects (snd (uploadRotatedPdfToS3 env b k w)) k = Some (stored b))
   \<and> (\<not> fails w (PutObjectCommand (split_key t n) b ''application/pdf'') \<longrightarrow>
      trace (snd (uploadPageToS3 env b n t w))
        = trace w @ [PutObjectCommand (split_key t n) b ''application/pdf'',
                     GetSignedUrl (split_key t n) 3600]
    \<and> objects (snd (uploadPageToS3 env b n t w)) (split_key t n) = Some (stored b))"
proof (intro conjI impI)
  assume f: "fails w (PutObjectCommand k b ''application/pdf'')"
  show "uploadPdfToS3 env b k w
        = (Inl IOError, w\<lparr>trace := trace w @ [PutObjectCommand k b ''application/pdf'']\<rparr>)"
    using f by (simp add: uploadPdfToS3_def s3_put_def sent_def)
  show "uploadCompressedPdfToS3 env b k w
        = (Inl IOError, w\<lparr>trace := trace w @ [PutObjectCommand k b ''application/pdf'']\<rparr>)"
    using f by (simp add: uploadCompressedPdfToS3_def s3_put_def sent_def)
  show "uploadRotatedPdfToS3 env b k w
        = (Inl IOError, w\<lparr>trace := trace w @ [PutObjectCommand k b ''application/pdf'']\<rparr>)"
    using f by (simp add: uploadRotatedPdfToS3_def s3_put_def sent_def)
next
  assume "fails w (PutObjectCommand (split_key t n) b ''application/pdf'')"
  then show "uploadPageToS3 env b n t w
        = (Inl IOError,
           w\<lparr>trace := trace w @ [PutObjectCommand (split_key t n) b ''application/pdf'']\<rparr>)"
    by (simp add: uploadPageToS3_def s3_put_def sent_def)
next
  assume f: "\<not> fails w (PutObjectCommand k b ''application/pdf'')"
  show "trace (snd (uploadPdfToS3 env b k w))
        = trace w @ [PutObjectCommand k b ''application/pdf'', GetSignedUrl k 3600]"
    using f by (simp add: uploadPdfToS3_def s3_put_def getSignedUrl_def sent_def)
  show "objects (snd (uploadPdfToS3 env b k w)) k = Some (stored b)"
    using f by (simp add: uploadPdfToS3_def s3_put_def getSignedUrl_def sent_def stored_def)
  show "trace (snd (uploadCompressedPdfToS3 env b k w))
        = trace w @ [PutObjectCommand k b ''application/pdf'', GetSignedUrl k 3600]"
    using f by (simp add: uploadCompressedPdfToS3_def s3_put_def getSignedUrl_def sent_def)
  show "objects (snd (uploadCompressedPdfToS3 env b k w)) k = Some (stored b)"
    using f
    by (simp add: uploadCompressedPdfToS3_def s3_put_def getSignedUrl_def sent_def stored_def)
  show "trace (snd (uploadRotatedPdfToS3 env b k w))
        = trace w @ [PutObjectCommand k b ''application/pdf'', GetSignedUrl k 3600]"
    using f by (simp add: uploadRotatedPdfToS3_def s3_put_def getSignedUrl_def sent_def)
  show "objects (snd (uploadRotatedPdfToS3 env b k w)) k = Some (stored b)"
    using f by (simp add: uploadRotatedPdfToS3_def s3_put_def getSignedUrl_def sent_def stored_def)
next
  assume f: "\<not> fails w (PutObjectCommand (split_key t n) b ''application/pdf'')"
  show "trace (snd (uploadPageToS3 env b n t w))
        = trace w @ [PutObjectCommand (split_key t n) b ''application/pdf'',
                     GetSignedUrl (split_key t n) 3600]"
    using f by (simp add: uploadPageToS3_def s3_put_def getSignedUrl_def sent_def)
  show "objects (snd (uploadPageToS3 env b n t w)) (split_key t n) = Some (stored b)"
    using f by (simp add: uploadPageToS3_def s3_put_def getSignedUrl_def sent_def stored_def)
qed

theorem sign_only_after_store_witness:
  "fails sample_outage (PutObjectCommand (JStr ''processed/out.pdf'') [1, 0] ''application/pdf'')
   \<and> fst (uploadPdfToS3 sample_env [1, 0] (JStr ''processed/out.pdf'') sample_outage) = Inl IOError
   \<and> trace (snd (uploadPdfToS3 sample_env [1, 0] (JStr ''processed/out.pdf'') sample_outage))
       = [PutObjectCommand (JStr ''processed/out.pdf'') [1, 0] ''application/pdf'']
   \<and> fails sample_outage (PutObjectCommand (split_key 1700 1) [1, 0] ''application/pdf'')
   \<and> fst (uploadPageToS3 sample_env [1, 0] 1 1700 sample_outage) = Inl IOError
   \<and> \<not> fails sample_world (PutObjectCommand (JStr ''processed/out.pdf'') [1, 0] ''application/pdf'')
   \<and> trace (snd (uploadCompressedPdfToS3 sample_env [1, 0] (JStr ''processed/out.pdf'') sample_world))
       = [PutObjectCommand (JStr ''processed/out.pdf'') [1, 0] ''application/pdf'',
          GetSignedUrl (JStr ''processed/out.pdf'') 3600]
   \<and> objects (snd (uploadCompressedPdfToS3 sample_env [1, 0] (JStr ''processed/out.pdf'') sample_world))
        (JStr ''processed/out.pdf'') = Some (stored [1, 0])
   \<and> \<not> fails sample_world (PutObjectCommand (split_key 1700 1) [1, 0] ''application/pdf'')
   \<and> objects (snd (uploadPageToS3 sample_env [1, 0] 1 1700 sample_world)) (split_key 1700 1)
       = Some (stored [1, 0])"
proof -
  have f: "\<And>c. \<not> fails sample_world c" by (simp add: sample_world_def)
  have g: "\<And>k b ct. fails sample_outage (PutObjectCommand k b ct)"
    by (simp add: sample_outage_def)
  have t: "trace sample_world = []" "trace sample_outage = []"
    by (simp_all add: sample_world_def sample_outage_def)
  show ?thesis
    using sign_only_after_store
            [of sample_outage "JStr ''processed/out.pdf''" "[1, 0]" sample_env 1700 1]
          sign_only_after_store
            [of sample_world "JStr ''processed/out.pdf''" "[1, 0]" sample_env 1700 1]
    by (simp add: f g t)
qed

text \<open>
  Claim C10. A merge request whose body has no \<^verbatim>\<open>fileKeys\<close> field, or whose
  \<^verbatim>\<open>fileKeys\<close> is \<^verbatim>\<open>null\<close> or another falsy value, gets the 400 response
  ``Please provide at least 2 PDF files to merge'', the same as a request with an empty or
  one-element list, and the world (bucket and trace) is left as it was.
\<close>

theorem merge_missing_fileKeys:
  assumes "event_body ev = Some reqBody"
    and "getProperty reqBody ''fileKeys'' = Inr v"
    and "\<not> truthy v"
  shows "merge_handler env ev w =
           (Inr \<lparr>statusCode = 400, headers = corsHeaders,
                 body = ErrorBody ''Please provide at least 2 PDF files to merge''\<rparr>, w)
         \<and> merge_handler env ev w
             = merge_handler env \<lparr>event_body = Some (JObj [(''fileKeys'', JArr [])])\<rparr> w
         \<and> merge_handler env ev w
             = merge_handler env \<lparr>event_body = Some (JObj [(''fileKeys'', JArr [k])])\<rparr> w"
  using assms by (simp add: merge_handler_def bad_request_def)


theorem merge_missing_fileKeys_witness:
  "event_body \<lparr>event_body = Some (JObj [(''files'', JArr [JStr ''uploads/a.pdf''])])\<rparr>
     = Some (JObj [(''files'', JArr [JStr ''uploads/a.pdf''])])
   \<and> getProperty (JObj [(''files'', JArr [JStr ''uploads/a.pdf''])]) ''fileKeys'' = Inr JUndefined
   \<and> \<not> truthy JUndefined
   \<and> merge_handler sample_env \<lparr>event_body = Some (JObj [(''files'', JArr [JStr ''uploads/a.pdf''])])\<rparr>
       sample_world
     = (Inr \<lparr>statusCode = 400, headers = corsHeaders,
             body = ErrorBody ''Please provide at least 2 PDF files to merge''\<rparr>, sample_world)
   \<and> getProperty (JObj [(''fileKeys'', JNull)]) ''fileKeys'' = Inr JNull
   \<and> \<not> truthy JNull
   \<and> merge_handler sample_env \<lparr>event_body = Some (JObj [(''fileKeys'', JNull)])\<rparr> sample_world
     = (Inr \<lparr>statusCode = 400, headers = corsHeaders,
             body = ErrorBody ''Please provide at least 2 PDF files to merge''\<rparr>, sample_world)"
  using merge_missing_fileKeys
          [of "\<lparr>event_body = Some (JObj [(''files'', JArr [JStr ''uploads/a.pdf''])])\<rparr>"
              "JObj [(''files'', JArr [JStr ''uploads/a.pdf''])]" JUndefined sample_env sample_world]
        merge_missing_fileKeys
          [of "\<lparr>event_body = Some (JObj [(''fileKeys'', JNull)])\<rparr>"
              "JObj [(''fileKeys'', JNull)]" JNull sample_env sample_world]
  by simp

text \<open>
  Claim C6, as amended. A merge request with fewer than 2 keys is answered 400 before any
  storage access: the world is unchanged. A split request whose source has fewer than 2
  pages is answered 400 after the source has been fetched and decoded (the page count is
  read from the decoded document): the trace gains that one \<^verbatim>\<open>GetObject\<close>, nothing
  is written, nothing is signed and no output document is produced.
\<close>

theorem validation_400_without_writes:
  "(event_body ev = Some reqBody \<and> getProperty reqBody ''fileKeys'' = Inr (JArr ks)
      \<and> length ks < 2 \<longrightarrow>
      merge_handler env ev w =
        (Inr \<lparr>statusCode = 400, headers = corsHeaders,
              body = ErrorBody ''Please provide at least 2 PDF files to merge''\<rparr>, w))
   \<and> (event_body ev = Some reqBody \<and> getProperty reqBody ''fileKey'' = Inr fileKey
      \<and> truthy fileKey \<and> source env w fileKey = Some src \<and> getPageCount src < 2 \<longrightarrow>
      split_handler env ev w =
        (Inr \<lparr>statusCode = 400, headers = corsHeaders,
              body = ErrorBody ''PDF must have at least 2 pages to split''\<rparr>,
         w\<lparr>trace := trace w @ [GetObjectCommand fileKey]\<rparr>))"
proof (intro conjI impI)
  assume a: "event_body ev = Some reqBody \<and> getProperty reqBody ''fileKeys'' = Inr (JArr ks)
      \<and> length ks < 2"
  then have "js_lt (Fin (of_nat (length ks))) (Fin 2)" by simp
  with a show "merge_handler env ev w =
        (Inr \<lparr>statusCode = 400, headers = corsHeaders,
              body = ErrorBody ''Please provide at least 2 PDF files to merge''\<rparr>, w)"
    by (simp add: merge_handler_def bad_request_def)
next
  assume a: "event_body ev = Some reqBody \<and> getProperty reqBody ''fileKey'' = Inr fileKey
      \<and> truthy fileKey \<and> source env w fileKey = Some src \<and> getPageCount src < 2"
  then obtain b where b: "downloadPdfFromS3 fileKey w = (Inr b, sent (GetObjectCommand fileKey) w)"
      "load env LoadDefault b = Some src"
    using download_source by blast
  from a b show "split_handler env ev w =
        (Inr \<lparr>statusCode = 400, headers = corsHeaders,
              body = ErrorBody ''PDF must have at least 2 pages to split''\<rparr>,
         w\<lparr>trace := trace w @ [GetObjectCommand fileKey]\<rparr>)"
    by (simp add: split_handler_def bad_request_def sent_def)
qed

theorem validation_400_without_writes_witness:
  "length [JStr ''uploads/a.pdf''] < 2
   \<and> merge_handler sample_env \<lparr>event_body = Some (JObj [(''fileKeys'', JArr [JStr ''uploads/a.pdf''])])\<rparr>
        sample_world
      = (Inr \<lparr>statusCode = 400, headers = corsHeaders,
              body = ErrorBody ''Please provide at least 2 PDF files to merge''\<rparr>, sample_world)
   \<and> truthy (JStr ''uploads/b.pdf'')
   \<and> source sample_env sample_world (JStr ''uploads/b.pdf'') = Some \<lparr>pages = [page_b1]\<rparr>
   \<and> getPageCount \<lparr>pages = [page_b1]\<rparr> < 2
   \<and> split_handler sample_env \<lparr>event_body = Some (JObj [(''fileKey'', JStr ''uploads/b.pdf'')])\<rparr>
        sample_world
      = (Inr \<lparr>statusCode = 400, headers = corsHeaders,
              body = ErrorBody ''PDF must have at least 2 pages to split''\<rparr>,
         sample_world\<lparr>trace := trace sample_world @ [GetObjectCommand (JStr ''uploads/b.pdf'')]\<rparr>)"
  using validation_400_without_writes
          [of "\<lparr>event_body = Some (JObj [(''fileKeys'', JArr [JStr ''uploads/a.pdf''])])\<rparr>"
              "JObj [(''fileKeys'', JArr [JStr ''uploads/a.pdf''])]" "[JStr ''uploads/a.pdf'']"
              sample_env sample_world]
        validation_400_without_writes
          [of "\<lparr>event_body = Some (JObj [(''fileKey'', JStr ''uploads/b.pdf'')])\<rparr>"
              "JObj [(''fileKey'', JStr ''uploads/b.pdf'')]" "[]" sample_env sample_world
              "JStr ''uploads/b.pdf''" "\<lparr>pages = [page_b1]\<rparr>"]
        sample_source_b
  by (simp add: getPageCount_def)

text \<open>
  Claim C6 as stated puts the validation failure before any storage work. For split, the
  one-page source of this run is fetched from storage before the 400 is returned.
\<close>

theorem split_reads_before_rejecting:
  "fst (split_handler sample_env \<lparr>event_body = Some (JObj [(''fileKey'', JStr ''uploads/b.pdf'')])\<rparr>
          sample_world)
     = Inr \<lparr>statusCode = 400, headers = corsHeaders,
            body = ErrorBody ''PDF must have at least 2 pages to split''\<rparr>
   \<and> trace sample_world = []
   \<and> trace (snd (split_handler sample_env
                   \<lparr>event_body = Some (JObj [(''fileKey'', JStr ''uploads/b.pdf'')])\<rparr> sample_world))
     = [GetObjectCommand (JStr ''uploads/b.pdf'')]"
  by (simp add: split_handler_def downloadPdfFromS3_def s3_get_def sent_def sample_world_def
      sample_env_def getPageCount_def bad_request_def)

lemma js_add_fin_assoc: "js_add (js_add x (Fin a)) (Fin b) = js_add x (Fin (a + b))"
  by (cases x) simp_all

text \<open>
  Claim C4. The rotate transform composes additively: for angles \<open>a\<close> and \<open>b\<close> of the
  allowed set, running the page loop with \<open>a\<close> and then with \<open>b\<close> gives every page
  the rotation that one run of the page loop with \<open>a + b\<close> gives it. (The statement is
  about the page loop: the handler itself admits only the three allowed angles.)
\<close>

theorem rotate_composes:
  assumes "a \<in> set validAngles" and "b \<in> set validAngles"
  shows "rotatePages b (rotatePages a ps) = rotatePages (js_add a b) ps
         \<and> (\<forall>i < length ps.
               rotation (rotatePages b (rotatePages a ps) ! i)
                 = rotation (rotatePages (js_add a b) ps ! i))"
proof -
  from assms obtain x y where xy: "a = Fin x" "b = Fin y"
    by (auto simp: validAngles_def)
  have "rotatePages b (rotatePages a ps) = rotatePages (js_add a b) ps"
    by (simp add: rotatePages_def xy js_add_fin_assoc)
  then show ?thesis by simp
qed

theorem rotate_composes_witness:
  "Fin 90 \<in> set validAngles \<and> Fin 180 \<in> set validAngles
   \<and> rotatePages (Fin 180) (rotatePages (Fin 90) [page_a1, page_a2])
       = rotatePages (Fin 270) [page_a1, page_a2]
   \<and> map rotation (rotatePages (Fin 270) [page_a1, page_a2]) = [Fin 540, Fin 270]"
  using rotate_composes [of "Fin 90" "Fin 180" "[page_a1, page_a2]"]
  by (simp add: validAngles_def rotatePages_def page_a1_def page_a2_def)





lemma reported_percent:
  "\<exists>p. clampPercent (savedPercent c n0) = Fin (of_int p)
       \<and> 0 \<le> p \<and> p \<le> 100
       \<and> (\<not> js_gt (savedPercent c n0) (Fin 0) \<longrightarrow> p = 0)"
proof (cases "n0 = 0")
  case True
  then show ?thesis
    by (cases "c = 0")
      (auto simp: savedPercent_def clampPercent_def js_sub_def js_gt_def intro: exI[of _ 0])
next
  case False
  define x :: rat where "x = (1 - of_nat c / of_nat n0) * 100"
  have sp: "savedPercent c n0 = Fin (of_int \<lfloor>x + 1 / 2\<rfloor>)"
    using False by (simp add: savedPercent_def js_sub_def x_def)
  have "of_nat c / (of_nat n0 :: rat) \<ge> 0" by simp
  then have "x \<le> 100" unfolding x_def by simp
  then have "x + 1 / 2 < 101" by simp
  then have "\<lfloor>x + 1 / 2\<rfloor> < 101" by (simp add: floor_less_iff)
  then have le: "\<lfloor>x + 1 / 2\<rfloor> \<le> 100" by simp
  show ?thesis
  proof (cases "0 < \<lfloor>x + 1 / 2\<rfloor>")
    case True
    then show ?thesis
      using le by (intro exI[of _ "\<lfloor>x + 1 / 2\<rfloor>"]) (simp add: sp clampPercent_def js_gt_def)
  next
    case False
    then show ?thesis by (intro exI[of _ 0]) (simp add: sp clampPercent_def js_gt_def)
  qed
qed

text \<open>
  Claim C5. In every successful compress response the \<^verbatim>\<open>savedPercent\<close> field is an
  integer between 0 and 100, and it is exactly 0 whenever the rounded percentage computed
  from the two sizes is not positive (the compressed size reaching or exceeding the
  original one, and a zero original size, included).
\<close>

theorem compress_savedPercent_nonneg:
  assumes "compress_handler env ev w = (Inr r, w')" and "statusCode r = 200"
  shows "\<exists>msg url k c n0 p.
           body r = CompressBody msg url k (formatBytes n0) (formatBytes c) (Fin (of_int p))
           \<and> 0 \<le> p \<and> p \<le> 100
           \<and> Fin (of_int p) = clampPercent (savedPercent c n0)
           \<and> (\<not> js_gt (Math_round (js_mul (js_sub (Fin 1)
                           (js_div (Fin (of_nat c)) (Fin (of_nat n0)))) (Fin 100))) (Fin 0)
                \<longrightarrow> p = 0)"
proof -
  from assms obtain msg url k c n0 where
    b: "body r = CompressBody msg url k (formatBytes n0) (formatBytes c)
                   (clampPercent (savedPercent c n0))"
    by (auto simp: compress_handler_def bad_request_def
        split: option.splits sum.splits prod.splits if_splits)
  from reported_percent[of c n0] obtain p where
    p: "clampPercent (savedPercent c n0) = Fin (of_int p)"
       "0 \<le> p" "p \<le> 100" "\<not> js_gt (savedPercent c n0) (Fin 0) \<longrightarrow> p = 0"
    by blast
  show ?thesis
    using b p by (intro exI[of _ msg] exI[of _ url] exI[of _ k] exI[of _ c] exI[of _ n0] exI[of _ p])
      (simp add: savedPercent_def)
qed

lemma compress_run_larger:
  "fst (compress_handler sample_padding_env
          \<lparr>event_body = Some (JObj [(''fileKey'', JStr ''uploads/b.pdf'')])\<rparr> sample_world)
    = Inr \<lparr>statusCode = 200, headers = corsHeaders,
           body = CompressBody ''PDF compressed successfully'' ''https://signed''
                    (JStr ''processed/compressed-1700.pdf'') ''2 B'' ''6 B'' (Fin 0)\<rparr>"
  by code_simp

lemma sample_savedPercent: "savedPercent 6 2 = Fin (- 200)"
  by code_simp

theorem compress_savedPercent_nonneg_witness:
  "fst (compress_handler sample_padding_env
          \<lparr>event_body = Some (JObj [(''fileKey'', JStr ''uploads/b.pdf'')])\<rparr> sample_world)
    = Inr \<lparr>statusCode = 200, headers = corsHeaders,
           body = CompressBody ''PDF compressed successfully'' ''https://signed''
                    (JStr ''processed/compressed-1700.pdf'') ''2 B'' ''6 B'' (Fin 0)\<rparr>
   \<and> statusCode \<lparr>statusCode = 200, headers = corsHeaders,
           body = CompressBody ''PDF compressed successfully'' ''https://signed''
                    (JStr ''processed/compressed-1700.pdf'') ''2 B'' ''6 B'' (Fin 0)\<rparr> = 200
   \<and> savedPercent 6 2 = Fin (- 200)
   \<and> (\<exists>p. Fin 0 = Fin (of_int p) \<and> 0 \<le> p \<and> p \<le> 100)"
proof -
  obtain w' where run: "compress_handler sample_padding_env
          \<lparr>event_body = Some (JObj [(''fileKey'', JStr ''uploads/b.pdf'')])\<rparr> sample_world
    = (Inr \<lparr>statusCode = 200, headers = corsHeaders,
           body = CompressBody ''PDF compressed successfully'' ''https://signed''
                    (JStr ''processed/compressed-1700.pdf'') ''2 B'' ''6 B'' (Fin 0)\<rparr>, w')"
    using compress_run_larger by (metis prod.collapse)
  from compress_savedPercent_nonneg[OF run] show ?thesis
    using compress_run_larger sample_savedPercent by auto
qed









lemma fails_page_uploaded [simp]: "fails (page_uploaded env src t w i) = fails w"
  by (simp add: page_uploaded_def)

lemma uploadPage_ok:
  "\<not> fails w (PutObjectCommand (split_key t (i + 1)) (page_file env src i) ''application/pdf'') \<Longrightarrow>
   \<not> fails w (GetSignedUrl (split_key t (i + 1)) 3600) \<Longrightarrow>
   uploadPageToS3 env (page_file env src i) (i + 1) t w
     = (Inr (page_entry env t i), page_uploaded env src t w i)"
  by (simp add: uploadPageToS3_def s3_put_def getSignedUrl_def sent_def page_entry_def
      page_uploaded_def stored_def)

lemma splitLoop_run:
  "\<forall>c. \<not> fails w c \<Longrightarrow> n \<le> length (pages src) \<Longrightarrow> i \<le> n \<Longrightarrow>
   splitLoop env src t n i results w
     = (Inr (results @ map (page_entry env t) [i..<n]),
        foldl (page_uploaded env src t) w [i..<n])"
proof (induction "n - i" arbitrary: i results w)
  case 0
  then show ?case by (simp add: splitLoop.simps)
next
  case (Suc k)
  then have lt: "i < n" and il: "i < length (pages src)" by simp_all
  have nf: "\<forall>c. \<not> fails (page_uploaded env src t w i) c" using Suc.prems(1) by simp
  have k: "k = n - Suc i" using Suc.hyps(2) by simp
  have step: "splitLoop env src t n i results w
                = splitLoop env src t n (i + 1) (results @ [page_entry env t i])
                    (page_uploaded env src t w i)"
    using lt il uploadPage_ok[of w t i env src] Suc.prems(1)
    by (subst splitLoop.simps)
      (simp add: addPage_def PDFDocument_create_def page_file_def)
  have "splitLoop env src t n (Suc i) (results @ [page_entry env t i])
          (page_uploaded env src t w i)
        = (Inr ((results @ [page_entry env t i]) @ map (page_entry env t) [Suc i..<n]),
           foldl (page_uploaded env src t) (page_uploaded env src t w i) [Suc i..<n])"
    using Suc.hyps(1)[OF k nf Suc.prems(2)] lt by simp
  with step lt show ?case by (simp add: upt_conv_Cons)
qed

lemma trace_pages_uploaded:
  "trace (foldl (page_uploaded env src t) w js)
     = trace w @ concat (map (\<lambda>i. [PutObjectCommand (split_key t (i + 1)) (page_file env src i)
                                      ''application/pdf'',
                                    GetSignedUrl (split_key t (i + 1)) 3600]) js)"
  by (induction js arbitrary: w) (simp_all add: page_uploaded_def)

lemma objects_pages_uploaded_other:
  "k \<notin> (\<lambda>i. split_key t (i + 1)) ` set js \<Longrightarrow>
   objects (foldl (page_uploaded env src t) w js) k = objects w k"
  by (induction js arbitrary: w) (auto simp: page_uploaded_def)

lemma objects_pages_uploaded_hit:
  "j \<in> set js \<Longrightarrow>
   objects (foldl (page_uploaded env src t) w js) (split_key t (j + 1))
     = Some (stored (page_file env src j))"
proof (induction js arbitrary: w rule: rev_induct)
  case Nil
  then show ?case by simp
next
  case (snoc x xs)
  show ?case
  proof (cases "j = x")
    case True
    then show ?thesis by (simp add: page_uploaded_def)
  next
    case False
    then have "split_key t (j + 1) \<noteq> split_key t (x + 1)"
      using split_key_inj by fastforce
    moreover from False snoc.prems have "j \<in> set xs" by simp
    ultimately show ?thesis using snoc.IH by (simp add: page_uploaded_def)
  qed
qed

text \<open>
  Claim C2. A split request on a source of \<open>D \<ge> 2\<close> pages (no request failing) answers
  200 with \<open>D\<close> entries whose page numbers are \<open>1, ..., D\<close> in ascending order and
  whose keys are pairwise distinct; it writes exactly one object per entry, and the object
  of page number \<open>n\<close> is the serialisation of a one-page document holding the source page
  at index \<open>n - 1\<close>. No other key of the bucket changes.
\<close>

theorem split_one_object_per_page:
  assumes "event_body ev = Some reqBody"
    and "getProperty reqBody ''fileKey'' = Inr fileKey"
    and "truthy fileKey"
    and "source env w fileKey = Some src"
    and "2 \<le> getPageCount src"
    and "\<forall>c. \<not> fails w c"
  shows "\<exists>results w'.
           split_handler env ev w =
             (Inr \<lparr>statusCode = 200, headers = corsHeaders,
                   body = SplitBody (''PDF split into '' @ show_nat (getPageCount src)
                                       @ '' pages successfully'')
                            (getPageCount src) results\<rparr>, w')
           \<and> length results = getPageCount src
           \<and> map pageNumber results = [1..<getPageCount src + 1]
           \<and> distinct (map outputKey results)
           \<and> (\<forall>r \<in> set results.
                 outputKey r = split_key (now w) (pageNumber r)
                 \<and> objects w' (outputKey r)
                     = Some (stored (save env SaveDefault
                                       \<lparr>pages = [pages src ! (pageNumber r - 1)]\<rparr>)))
           \<and> (\<forall>k. k \<notin> set (map outputKey results) \<longrightarrow> objects w' k = objects w k)
           \<and> trace w' = trace w @ GetObjectCommand fileKey #
               concat (map (\<lambda>i. [PutObjectCommand (split_key (now w) (i + 1))
                                    (save env SaveDefault \<lparr>pages = [pages src ! i]\<rparr>)
                                    ''application/pdf'',
                                  GetSignedUrl (split_key (now w) (i + 1)) 3600])
                        [0..<getPageCount src])"
proof -
  let ?D = "getPageCount src"
  let ?t = "now w"
  let ?w1 = "sent (GetObjectCommand fileKey) w"
  let ?results = "map (page_entry env ?t) [0..<?D]"
  let ?w' = "foldl (page_uploaded env src ?t) ?w1 [0..<?D]"
  from download_source[OF assms(4)] obtain b where
    b: "downloadPdfFromS3 fileKey w = (Inr b, ?w1)" "load env LoadDefault b = Some src"
    by blast
  have nf: "\<forall>c. \<not> fails ?w1 c" using assms(6) by (simp add: sent_def)
  have loop: "splitLoop env src ?t ?D 0 [] ?w1 = (Inr ?results, ?w')"
    using splitLoop_run[OF nf, of ?D src 0 env ?t "[]"] by (simp add: getPageCount_def)
  have t1: "now ?w1 = ?t" by (simp add: sent_def)
  have run: "split_handler env ev w =
             (Inr \<lparr>statusCode = 200, headers = corsHeaders,
                   body = SplitBody (''PDF split into '' @ show_nat ?D @ '' pages successfully'')
                            ?D ?results\<rparr>, ?w')"
    using assms(5) by (simp add: split_handler_def assms(1-3) b t1 loop)
  have keys: "map outputKey ?results = map (\<lambda>i. split_key ?t (i + 1)) [0..<?D]"
    by (simp add: page_entry_def comp_def)
  have inj: "inj_on (\<lambda>i. split_key ?t (i + 1)) (set [0..<?D])"
    by (rule inj_onI) (use split_key_inj in fastforce)
  have nums: "map pageNumber ?results = [1..<?D + 1]"
    using map_Suc_upt[of 0 ?D] by (simp add: page_entry_def comp_def)
  have dist: "distinct (map outputKey ?results)"
    unfolding keys using inj by (simp add: distinct_map)
  have each: "\<forall>r \<in> set ?results.
                 outputKey r = split_key ?t (pageNumber r)
                 \<and> objects ?w' (outputKey r)
                     = Some (stored (save env SaveDefault
                                       \<lparr>pages = [pages src ! (pageNumber r - 1)]\<rparr>))"
  proof
    fix r assume "r \<in> set ?results"
    then obtain i where i: "i \<in> set [0..<?D]" "r = page_entry env ?t i" by auto
    from objects_pages_uploaded_hit[OF i(1), of env src ?t ?w1]
    show "outputKey r = split_key ?t (pageNumber r)
                 \<and> objects ?w' (outputKey r)
                     = Some (stored (save env SaveDefault
                                       \<lparr>pages = [pages src ! (pageNumber r - 1)]\<rparr>))"
      by (simp add: i(2) page_entry_def page_file_def)
  qed
  have other: "\<forall>k. k \<notin> set (map outputKey ?results) \<longrightarrow> objects ?w' k = objects w k"
  proof (intro allI impI)
    fix k assume "k \<notin> set (map outputKey ?results)"
    then have "k \<notin> (\<lambda>i. split_key ?t (i + 1)) ` set [0..<?D]" unfolding keys by simp
    from objects_pages_uploaded_other[OF this, of env src ?w1]
    show "objects ?w' k = objects w k" by (simp add: sent_def)
  qed
  have tr: "trace ?w' = trace w @ GetObjectCommand fileKey #
               concat (map (\<lambda>i. [PutObjectCommand (split_key ?t (i + 1))
                                    (save env SaveDefault \<lparr>pages = [pages src ! i]\<rparr>)
                                    ''application/pdf'',
                                  GetSignedUrl (split_key ?t (i + 1)) 3600])
                        [0..<?D])"
    by (simp add: trace_pages_uploaded sent_def page_file_def)
  have len: "length ?results = ?D" by simp
  show ?thesis
    apply (rule exI[of _ ?results])
    apply (rule exI[of _ ?w'])
    apply (intro conjI)
          apply (rule run)
         apply (rule len)
        apply (rule nums)
       apply (rule dist)
      apply (rule each)
     apply (rule other)
    apply (rule tr)
    done
qed

lemma sample_split_run:
  "fst (split_handler sample_env
          \<lparr>event_body = Some (JObj [(''fileKey'', JStr ''uploads/a.pdf'')])\<rparr> sample_world)
     = Inr \<lparr>statusCode = 200, headers = corsHeaders,
            body = SplitBody ''PDF split into 2 pages successfully'' 2
                     [\<lparr>pageNumber = 1, downloadUrl = ''https://signed'',
                       outputKey = JStr ''processed/split-1700-page-1.pdf''\<rparr>,
                      \<lparr>pageNumber = 2, downloadUrl = ''https://signed'',
                       outputKey = JStr ''processed/split-1700-page-2.pdf''\<rparr>]\<rparr>"
  "objects (snd (split_handler sample_env
          \<lparr>event_body = Some (JObj [(''fileKey'', JStr ''uploads/a.pdf'')])\<rparr> sample_world))
       (JStr ''processed/split-1700-page-1.pdf'') = Some (stored [1])"
  "objects (snd (split_handler sample_env
          \<lparr>event_body = Some (JObj [(''fileKey'', JStr ''uploads/a.pdf'')])\<rparr> sample_world))
       (JStr ''processed/split-1700-page-2.pdf'') = Some (stored [2])"
  by code_simp+

theorem split_one_object_per_page_witness:
  "truthy (JStr ''uploads/a.pdf'')
   \<and> source sample_env sample_world (JStr ''uploads/a.pdf'') = Some \<lparr>pages = [page_a1, page_a2]\<rparr>
   \<and> 2 \<le> getPageCount \<lparr>pages = [page_a1, page_a2]\<rparr>
   \<and> (\<exists>results w'.
         split_handler sample_env
            \<lparr>event_body = Some (JObj [(''fileKey'', JStr ''uploads/a.pdf'')])\<rparr> sample_world
           = (Inr \<lparr>statusCode = 200, headers = corsHeaders,
                   body = SplitBody (''PDF split into ''
                                       @ show_nat (getPageCount \<lparr>pages = [page_a1, page_a2]\<rparr>)
                                       @ '' pages successfully'')
                            (getPageCount \<lparr>pages = [page_a1, page_a2]\<rparr>) results\<rparr>, w')
         \<and> map pageNumber results = [1..<getPageCount \<lparr>pages = [page_a1, page_a2]\<rparr> + 1]
         \<and> distinct (map outputKey results))
   \<and> objects (snd (split_handler sample_env
          \<lparr>event_body = Some (JObj [(''fileKey'', JStr ''uploads/a.pdf'')])\<rparr> sample_world))
       (JStr ''processed/split-1700-page-2.pdf'') = Some (stored [2])"
proof -
  have f: "\<forall>c. \<not> fails sample_world c" by (simp add: sample_world_def)
  have g: "2 \<le> getPageCount \<lparr>pages = [page_a1, page_a2]\<rparr>" by (simp add: getPageCount_def)
  have e: "event_body \<lparr>event_body = Some (JObj [(''fileKey'', JStr ''uploads/a.pdf'')])\<rparr>
             = Some (JObj [(''fileKey'', JStr ''uploads/a.pdf'')])"
    and p: "getProperty (JObj [(''fileKey'', JStr ''uploads/a.pdf'')]) ''fileKey''
             = Inr (JStr ''uploads/a.pdf'')"
    and k: "truthy (JStr ''uploads/a.pdf'')"
    by simp_all
  from split_one_object_per_page [OF e p k sample_source_a g f]
  have "\<exists>results w'.
         split_handler sample_env
            \<lparr>event_body = Some (JObj [(''fileKey'', JStr ''uploads/a.pdf'')])\<rparr> sample_world
           = (Inr \<lparr>statusCode = 200, headers = corsHeaders,
                   body = SplitBody (''PDF split into ''
                                       @ show_nat (getPageCount \<lparr>pages = [page_a1, page_a2]\<rparr>)
                                       @ '' pages successfully'')
                            (getPageCount \<lparr>pages = [page_a1, page_a2]\<rparr>) results\<rparr>, w')
         \<and> map pageNumber results = [1..<getPageCount \<lparr>pages = [page_a1, page_a2]\<rparr> + 1]
         \<and> distinct (map outputKey results)"
    by blast
  then show ?thesis
    using sample_source_a g sample_split_run(3) by simp
qed


end
